theory Spec2Isabelle
  imports Complex_Main "HOL-Library.Log_Nat"
begin

section \<open>Python values used by the thumbnail code\<close>

datatype py_error =
    TypeError
  | AttributeError
  | ZeroDivisionError
  | OverflowError
  | OSError
  | IOError
  | EOFError
  | UnboundLocalError
  | SystemExit
  | IndexError
  | ValueError
  | OtherError string

subsection \<open>Floats that are exact\<close>

text \<open>
  Every float that \<open>smart_resize\<close> computes is an integer multiple of 1/8 or
  of 1/2 of a pixel count, which a double represents exactly; there a float
  is the rational number it denotes.
\<close>

type_synonym pyfloat = rat

text \<open>\<open>int(x)\<close> on a float truncates towards zero.\<close>

definition py_int :: "pyfloat \<Rightarrow> int" where
  "py_int x = (if 0 \<le> x then \<lfloor>x\<rfloor> else \<lceil>x\<rceil>)"

subsection \<open>Doubles\<close>

text \<open>
  The floats of \<open>models.py\<close> and of \<open>process_image\<close> are IEEE 754 binary64
  values: a finite double is the rational it denotes, and there are the two
  infinities (\<open>True\<close> for the negative one) and NaN.  The sign of zero is
  not kept; no operation below tells the two zeros apart.
\<close>

datatype double = Finite rat | Infinite bool | NaN

text \<open>For \<open>x > 0\<close>, the \<open>e\<close> with \<open>2 ^ e \<le> x < 2 ^ (e + 1)\<close>.\<close>

definition binary_exponent :: "rat \<Rightarrow> int" where
  "binary_exponent x =
     (let (p, q) = quotient_of x; e = bitlen p - bitlen q
      in if x < 2 powi e then e - 1 else e)"

definition round_half_even :: "rat \<Rightarrow> int" where
  "round_half_even x =
     (let f = \<lfloor>x\<rfloor>; d = x - of_int f
      in if d < 1 / 2 then f
         else if 1 / 2 < d then f + 1
         else if even f then f else f + 1)"

text \<open>
  Rounding a real result to the nearest double, ties to even: 53 significant
  bits, gradual underflow below \<open>2 ^ -1022\<close>, overflow to an infinity.
\<close>

definition round_double :: "rat \<Rightarrow> double" where
  "round_double x =
     (if x = 0 then Finite 0
      else (let e = binary_exponent \<bar>x\<bar>;
                ulp = 2 powi (max (e - 52) (- 1074));
                m = round_half_even (\<bar>x\<bar> / ulp)
            in if 1024 \<le> e \<or> (e = 1023 \<and> m = 2 ^ 53) then Infinite (x < 0)
               else Finite (sgn x * of_int m * ulp)))"

text \<open>
  Converting an integer to a float rounds it, and raises \<open>OverflowError\<close> when
  it is too large.
\<close>

definition double_of_int :: "int \<Rightarrow> py_error + double" where
  "double_of_int n =
     (case round_double (of_int n) of
        Infinite s \<Rightarrow> Inl OverflowError
      | d \<Rightarrow> Inr d)"

text \<open>\<open>a / b\<close> on floats: a zero divisor raises, everything else is IEEE.\<close>

fun double_div :: "double \<Rightarrow> double \<Rightarrow> py_error + double" where
  "double_div a (Finite y) =
     (if y = 0 then Inl ZeroDivisionError
      else case a of
             Finite x \<Rightarrow> Inr (round_double (x / y))
           | Infinite s \<Rightarrow> Inr (Infinite (s \<noteq> (y < 0)))
           | NaN \<Rightarrow> Inr NaN)"
| "double_div a (Infinite t) =
     (case a of Finite x \<Rightarrow> Inr (Finite 0) | Infinite s \<Rightarrow> Inr NaN | NaN \<Rightarrow> Inr NaN)"
| "double_div a NaN = Inr NaN"

text \<open>\<open>a * b\<close> on floats.\<close>

fun double_mul :: "double \<Rightarrow> double \<Rightarrow> double" where
  "double_mul (Finite x) (Finite y) = round_double (x * y)"
| "double_mul (Finite x) (Infinite t) = (if x = 0 then NaN else Infinite (t \<noteq> (x < 0)))"
| "double_mul (Infinite s) (Finite y) = (if y = 0 then NaN else Infinite (s \<noteq> (y < 0)))"
| "double_mul (Infinite s) (Infinite t) = Infinite (s \<noteq> t)"
| "double_mul a b = NaN"

text \<open>
  \<open>int(x)\<close> on a float truncates towards zero; it raises on an infinity and
  on NaN.
\<close>

fun int_of_double :: "double \<Rightarrow> py_error + int" where
  "int_of_double (Finite x) = Inr (py_int x)"
| "int_of_double (Infinite s) = Inl OverflowError"
| "int_of_double NaN = Inl ValueError"

fun truthy_double :: "double \<Rightarrow> bool" where
  "truthy_double (Finite x) = (x \<noteq> 0)"
| "truthy_double d = True"

text \<open>
  \<open>round(x, 2)\<close> of Python 2.7: the exact value of the double is rounded to
  two decimals, halves away from zero, and the decimal is converted back to
  the nearest double.  Infinities and NaN are returned as they are.
\<close>

definition round_half_away :: "rat \<Rightarrow> int" where
  "round_half_away x = (if 0 \<le> x then \<lfloor>x + 1 / 2\<rfloor> else - \<lfloor>- x + 1 / 2\<rfloor>)"

fun py_round2 :: "double \<Rightarrow> double" where
  "py_round2 (Finite x) = round_double (of_int (round_half_away (x * 100)) / 100)"
| "py_round2 d = d"

subsection \<open>Numbers\<close>

text \<open>
  A number held by a model field is a Python integer or a float.  \<open>models.py\<close>
  does not import \<open>division\<close>: \<open>/\<close> between integers is floor division, and
  with a float operand the integer is converted first.
\<close>

datatype number = Int_val int | Float_val double

fun truthy_number :: "number \<Rightarrow> bool" where
  "truthy_number (Int_val n) = (n \<noteq> 0)"
| "truthy_number (Float_val d) = truthy_double d"

fun py2_div :: "int \<Rightarrow> number \<Rightarrow> py_error + number" where
  "py2_div a (Int_val b) =
     (if b = 0 then Inl ZeroDivisionError else Inr (Int_val (a div b)))"
| "py2_div a (Float_val b) =
     (case double_of_int a of
        Inl e \<Rightarrow> Inl e
      | Inr a' \<Rightarrow>
          (case double_div a' b of Inl e \<Rightarrow> Inl e | Inr q \<Rightarrow> Inr (Float_val q)))"

fun py_mul :: "int \<Rightarrow> number \<Rightarrow> py_error + number" where
  "py_mul a (Int_val b) = Inr (Int_val (a * b))"
| "py_mul a (Float_val b) =
     (case double_of_int a of
        Inl e \<Rightarrow> Inl e
      | Inr a' \<Rightarrow> Inr (Float_val (double_mul a' b)))"

text \<open>\<open>int(v)\<close>\<close>

fun int_of_number :: "number \<Rightarrow> py_error + int" where
  "int_of_number (Int_val n) = Inr n"
| "int_of_number (Float_val d) = int_of_double d"

text \<open>Truthiness of an optional value: \<open>None\<close> and zero are false.\<close>

definition truthy_int :: "int option \<Rightarrow> bool" where
  "truthy_int v = (case v of None \<Rightarrow> False | Some n \<Rightarrow> n \<noteq> 0)"

definition truthy_ratio :: "number option \<Rightarrow> bool" where
  "truthy_ratio v = (case v of None \<Rightarrow> False | Some x \<Rightarrow> truthy_number x)"

section \<open>models.py: ImageSize\<close>

text \<open>
  The fields of \<open>ImageSize\<close> that its methods read: two nullable
  \<open>PositiveIntegerField\<close>s, a nullable \<open>FloatField\<close> (a float when loaded,
  the integer 1 once \<open>save\<close> has assigned it) and the flags.
\<close>

record ImageSize =
  slug :: string
  height :: "int option"
  width :: "int option"
  aspect_ratio :: "number option"
  auto_crop :: bool
  retina :: bool

text \<open>
  \<^verbatim>\<open>
  def get_height(self):
      if self.height is None and self.width and self.aspect_ratio:
          return int(self.width / self.aspect_ratio)
      return self.height
  \<close>
\<close>

definition get_height :: "ImageSize \<Rightarrow> py_error + int option" where
  "get_height s =
     (if height s = None \<and> truthy_int (width s) \<and> truthy_ratio (aspect_ratio s)
      then (case py2_div (the (width s)) (the (aspect_ratio s)) of
              Inl e \<Rightarrow> Inl e
            | Inr q \<Rightarrow> (case int_of_number q of Inl e \<Rightarrow> Inl e | Inr n \<Rightarrow> Inr (Some n)))
      else Inr (height s))"

text \<open>
  \<^verbatim>\<open>
  def get_width(self):
      if self.width is None and self.height and self.aspect_ratio:
          return int(self.height * self.aspect_ratio)
      return self.width
  \<close>
\<close>

definition get_width :: "ImageSize \<Rightarrow> py_error + int option" where
  "get_width s =
     (if width s = None \<and> truthy_int (height s) \<and> truthy_ratio (aspect_ratio s)
      then (case py_mul (the (height s)) (the (aspect_ratio s)) of
              Inl e \<Rightarrow> Inl e
            | Inr p \<Rightarrow> (case int_of_number p of Inl e \<Rightarrow> Inl e | Inr n \<Rightarrow> Inr (Some n)))
      else Inr (width s))"

text \<open>\<open>round(self.width / float(self.height), 2)\<close>, for a height that is not zero.\<close>

definition rounded_ratio :: "int \<Rightarrow> int \<Rightarrow> py_error + number" where
  "rounded_ratio w h =
     (case double_of_int h of
        Inl e \<Rightarrow> Inl e
      | Inr h' \<Rightarrow>
          (case double_of_int w of
             Inl e \<Rightarrow> Inl e
           | Inr w' \<Rightarrow>
               (case double_div w' h' of
                  Inl e \<Rightarrow> Inl e
                | Inr q \<Rightarrow> Inr (Float_val (py_round2 q)))))"

text \<open>
  \<^verbatim>\<open>
  def get_aspect_ratio(self):
      if self.aspect_ratio is None and self.height and self.width:
          return round(self.width / float(self.height), 2)
      return self.aspect_ratio
  \<close>
\<close>

definition get_aspect_ratio :: "ImageSize \<Rightarrow> py_error + number option" where
  "get_aspect_ratio s =
     (if aspect_ratio s = None \<and> truthy_int (height s) \<and> truthy_int (width s)
      then (case rounded_ratio (the (width s)) (the (height s)) of
              Inl e \<Rightarrow> Inl e
            | Inr r \<Rightarrow> Inr (Some r))
      else Inr (aspect_ratio s))"

text \<open>
  \<open>get_dimensions\<close> evaluates \<open>self.get_width()\<close>, \<open>self.get_height()\<close> and then
  \<open>self.aspect_ratio()\<close>: a call of the field's value.  That value is a float,
  an int or \<open>None\<close>, none of which is callable, so the call raises
  \<open>TypeError\<close>.
  \<^verbatim>\<open>
  def get_dimensions(self):
      return (self.get_width(), self.get_height(), self.aspect_ratio())
  \<close>
\<close>

definition call_field_value :: "number option \<Rightarrow> py_error + number option" where
  "call_field_value v = Inl TypeError"

definition get_dimensions ::
  "ImageSize \<Rightarrow> py_error + (int option \<times> int option \<times> number option)" where
  "get_dimensions s =
     (case get_width s of
        Inl e \<Rightarrow> Inl e
      | Inr w \<Rightarrow>
          (case get_height s of
             Inl e \<Rightarrow> Inl e
           | Inr h \<Rightarrow>
               (case call_field_value (aspect_ratio s) of
                  Inl e \<Rightarrow> Inl e
                | Inr a \<Rightarrow> Inr (w, h, a))))"

text \<open>
  \<^verbatim>\<open>
  def get_retina(self):
      w, h, a = self.get_dimensions()
      w = w if w is None else w * 2
      h = h if h is None else h * 2
      return w, h, a
  \<close>
\<close>

definition get_retina ::
  "ImageSize \<Rightarrow> py_error + (int option \<times> int option \<times> number option)" where
  "get_retina s =
     (case get_dimensions s of
        Inl e \<Rightarrow> Inl e
      | Inr (w, h, a) \<Rightarrow>
          Inr (case w of None \<Rightarrow> None | Some w' \<Rightarrow> Some (w' * 2),
               case h of None \<Rightarrow> None | Some h' \<Rightarrow> Some (h' * 2),
               a))"

text \<open>
  \<^verbatim>\<open>
  def save(self, *args, **kwargs):
      if not(self.height and self.width):
          self.aspect_ratio = 1
      else:
          self.aspect_ratio = round(self.width/float(self.height), 2)
      super(ImageSize, self).save(*args, **kwargs)
  \<close>
  The model is the object after the call; writing the row to the database does
  not change these fields.
\<close>

definition save :: "ImageSize \<Rightarrow> py_error + ImageSize" where
  "save s =
     (if \<not> (truthy_int (height s) \<and> truthy_int (width s))
      then Inr (s\<lparr>aspect_ratio := Some (Int_val 1)\<rparr>)
      else (case rounded_ratio (the (width s)) (the (height s)) of
              Inl e \<Rightarrow> Inl e
            | Inr r \<Rightarrow> Inr (s\<lparr>aspect_ratio := Some r\<rparr>)))"

section \<open>utils/image.py: smart_resize\<close>

text \<open>
  A PIL image is modelled by the operations that produced it from decoded
  pixels: \<open>Image.resize\<close> and \<open>Image.crop\<close> return a new image and leave the
  one they are called on as it was.
\<close>

datatype resample = NEAREST | BICUBIC | ANTIALIAS

datatype pil_image =
    Decoded int int
  | Resized pil_image "int \<times> int" resample
  | Cropped pil_image "pyfloat \<times> pyfloat \<times> pyfloat \<times> pyfloat"

text \<open>\<open>im.size\<close>\<close>

fun im_size :: "pil_image \<Rightarrow> int \<times> int" where
  "im_size (Decoded w h) = (w, h)"
| "im_size (Resized im sz f) = sz"
| "im_size (Cropped im (x0, y0, x1, y1)) = (py_int (x1 - x0), py_int (y1 - y0))"

definition pil_resize :: "pil_image \<Rightarrow> int \<times> int \<Rightarrow> resample \<Rightarrow> pil_image" where
  "pil_resize im sz f = Resized im sz f"

definition pil_crop ::
  "pil_image \<Rightarrow> pyfloat \<times> pyfloat \<times> pyfloat \<times> pyfloat \<Rightarrow> pil_image" where
  "pil_crop im box = Cropped im box"

text \<open>\<open>math.floor\<close> and \<open>math.ceil\<close> return floats.\<close>

definition math_floor :: "pyfloat \<Rightarrow> pyfloat" where
  "math_floor x = of_int \<lfloor>x\<rfloor>"

definition math_ceil :: "pyfloat \<Rightarrow> pyfloat" where
  "math_ceil x = of_int \<lceil>x\<rceil>"

text \<open>
  \<open>PIL.PILLOW_VERSION\<close> is a parameter: \<open>None\<close> when the attribute is missing
  (or empty), otherwise the numeric components \<open>LooseVersion\<close> parses from it.
  \<open>version_ge\<close> is Python's comparison of the two component lists.
\<close>

fun version_ge :: "nat list \<Rightarrow> nat list \<Rightarrow> bool" where
  "version_ge v [] = True"
| "version_ge [] (b # bs) = False"
| "version_ge (a # as) (b # bs) = (if a = b then version_ge as bs else b < a)"

definition improved_bicubic :: "nat list option \<Rightarrow> bool" where
  "improved_bicubic pillow_version =
     (case pillow_version of None \<Rightarrow> False | Some v \<Rightarrow> version_ge v [2, 7, 0])"

text \<open>
  The loop \<open>for i in xrange(1, 8)\<close> of \<open>smart_resize\<close>, with its \<open>break\<close>:
  \<^verbatim>\<open>
  for i in xrange(1, 8):
      ratio = i / 8
      scaled_w = orig_w * ratio
      scaled_h = orig_h * ratio
      if scaled_w >= goal_w and scaled_h >= goal_h:
          crop_w = orig_w % 8
          crop_h = orig_h % 8
          if not crop_w or not crop_h:
              im.crop((math.floor(crop_w / 2),
                       math.floor(crop_h / 2),
                       orig_w - math.ceil(crop_w / 2),
                       orig_h - math.ceil(crop_h / 2)))
              (orig_w, orig_h) = im.size
          im = im.resize((int(orig_w * ratio), int(orig_w * ratio)),
                         PIL.Image.NEAREST)
          break
  \<close>
  The module imports \<open>division\<close> from \<open>__future__\<close>, so \<open>/\<close> is true division.
  The value of \<open>im.crop(...)\<close> is not assigned: \<open>im\<close> stays the image it was.
\<close>

fun eighths_loop ::
  "int list \<Rightarrow> pil_image \<Rightarrow> int \<Rightarrow> int \<Rightarrow> pyfloat \<Rightarrow> pyfloat \<Rightarrow> pil_image" where
  "eighths_loop [] im orig_w orig_h goal_w goal_h = im"
| "eighths_loop (i # rest) im orig_w orig_h goal_w goal_h =
     (let ratio = of_int i / 8;
          scaled_w = of_int orig_w * ratio;
          scaled_h = of_int orig_h * ratio
      in if goal_w \<le> scaled_w \<and> goal_h \<le> scaled_h then
           (let crop_w = orig_w mod 8;
                crop_h = orig_h mod 8;
                (orig_w', orig_h') =
                  (if crop_w = 0 \<or> crop_h = 0 then
                     (let discarded = pil_crop im
                            (math_floor (of_int crop_w / 2),
                             math_floor (of_int crop_h / 2),
                             of_int orig_w - math_ceil (of_int crop_w / 2),
                             of_int orig_h - math_ceil (of_int crop_h / 2))
                      in im_size im)
                   else (orig_w, orig_h))
            in pil_resize im
                 (py_int (of_int orig_w' * ratio), py_int (of_int orig_w' * ratio))
                 NEAREST)
         else eighths_loop rest im orig_w orig_h goal_w goal_h)"

text \<open>
  \<^verbatim>\<open>
  (orig_w, orig_h) = im.size
  if orig_w <= final_w and orig_h <= final_h:
      return im
  pillow_version = getattr(PIL, 'PILLOW_VERSION', None)
  if pillow_version and LooseVersion(pillow_version) >= LooseVersion('2.7.0'):
      return im.resize((final_w, final_h), PIL.Image.BICUBIC)
  (goal_w, goal_h) = (final_w * 1.5, final_h * 1.5)
  for i in xrange(1, 8): ...
  return im.resize((final_w, final_h), PIL.Image.ANTIALIAS)
  \<close>
\<close>

definition smart_resize :: "nat list option \<Rightarrow> pil_image \<Rightarrow> int \<Rightarrow> int \<Rightarrow> pil_image" where
  "smart_resize pillow_version im final_w final_h =
     (let (orig_w, orig_h) = im_size im
      in if orig_w \<le> final_w \<and> orig_h \<le> final_h then im
         else if improved_bicubic pillow_version then
           pil_resize im (final_w, final_h) BICUBIC
         else
           (let goal_w = of_int final_w * (3 / 2);
                goal_h = of_int final_h * (3 / 2);
                im' = eighths_loop [1, 2, 3, 4, 5, 6, 7] im orig_w orig_h goal_w goal_h
            in pil_resize im' (final_w, final_h) ANTIALIAS))"

text \<open>The number of crops in the history of an image.\<close>

fun crop_count :: "pil_image \<Rightarrow> nat" where
  "crop_count (Decoded w h) = 0"
| "crop_count (Resized im sz f) = crop_count im"
| "crop_count (Cropped im box) = Suc (crop_count im)"

section \<open>utils/image.py: process_image\<close>

text \<open>
  The values found in \<open>im.info\<close> and in save parameters, with Python's
  truth value and comparison with zero.
\<close>

datatype pyval =
    PyNone
  | PyBool bool
  | PyInt int
  | PyFloat double
  | PyStr string
  | PyTuple "pyval list"

fun truthy :: "pyval \<Rightarrow> bool" where
  "truthy PyNone = False"
| "truthy (PyBool b) = b"
| "truthy (PyInt n) = (n \<noteq> 0)"
| "truthy (PyFloat d) = truthy_double d"
| "truthy (PyStr s) = (s \<noteq> [])"
| "truthy (PyTuple vs) = (vs \<noteq> [])"

fun equals_zero :: "pyval \<Rightarrow> bool" where
  "equals_zero (PyBool b) = (\<not> b)"
| "equals_zero (PyInt n) = (n = 0)"
| "equals_zero (PyFloat d) = (d = Finite 0)"
| "equals_zero v = False"

text \<open>
  \<open>float(v)\<close>.  What \<open>float\<close> reads from a string is the parameter
  \<open>parse_float\<close>: the double, or \<open>None\<close> where it raises \<open>ValueError\<close>.
\<close>

fun py_float :: "(string \<Rightarrow> double option) \<Rightarrow> pyval \<Rightarrow> py_error + double" where
  "py_float parse_float (PyBool b) = Inr (Finite (if b then 1 else 0))"
| "py_float parse_float (PyInt n) = double_of_int n"
| "py_float parse_float (PyFloat d) = Inr d"
| "py_float parse_float (PyStr s) =
     (case parse_float s of None \<Rightarrow> Inl ValueError | Some d \<Rightarrow> Inr d)"
| "py_float parse_float v = Inl TypeError"

definition truthy_str :: "string option \<Rightarrow> bool" where
  "truthy_str s = (case s of None \<Rightarrow> False | Some cs \<Rightarrow> cs \<noteq> [])"

text \<open>
  A PIL image as the code reads it: \<open>im.format\<close>, \<open>im.info\<close> (a missing or
  empty \<open>info\<close> is the empty dictionary), \<open>im.filename\<close> and the decoded
  pixels.  \<open>image.copy()\<close> is the same value.
\<close>

record 'px image =
  format :: "string option"
  info :: "string \<rightharpoonup> pyval"
  filename :: "string option"
  pixels :: 'px

text \<open>
  \<^verbatim>\<open>
  def is_animated_gif(im):
      info = getattr(im, 'info', None) or {}
      return bool((im.format == 'GIF' or not im.format) and info.get('extension'))
  \<close>
\<close>

definition is_animated_gif :: "'px image \<Rightarrow> bool" where
  "is_animated_gif im =
     ((format im = Some ''GIF'' \<or> \<not> truthy_str (format im)) \<and>
      (case info im ''extension'' of None \<Rightarrow> False | Some v \<Rightarrow> truthy v))"

text \<open>
  A frame handed to the callback: a PIL image, or the \<open>GifsicleImage\<close> that
  wraps one.
\<close>

datatype 'px frame = Pil "'px image" | Gifsicle "'px image"

text \<open>
  What \<open>process_image\<close> uses and this repository's sources do not define: the
  settings, whether \<open>numpy\<close> and \<open>scipy\<close> were imported, the constructor of
  \<open>GifsicleImage\<close>, \<open>read_gif\<close> and \<open>write_gif\<close> of \<open>images2gif\<close>, the
  file operations of PIL and the standard library, over a world \<open>'w\<close>, and
  what \<open>float\<close> reads from a string.
\<close>

record ('px, 'w) settings =
  CROPDUSTER_GIFSICLE_PATH :: "string option"
  numpy :: bool
  scipy :: bool
  JPEG_SAVE_ICC_SUPPORTED :: bool
  get_jpeg_quality :: "int \<Rightarrow> int \<Rightarrow> int"
  GifsicleImage :: "'px image \<Rightarrow> py_error + 'px frame"
  os_path_exists :: "'w \<Rightarrow> string \<Rightarrow> bool"
  NamedTemporaryFile :: "'w \<Rightarrow> py_error + string \<times> 'w"
  frame_save :: "'px frame \<Rightarrow> string \<Rightarrow> (string \<times> pyval) list \<Rightarrow> 'w \<Rightarrow> py_error + 'w"
  read_bytes :: "'w \<Rightarrow> string \<Rightarrow> py_error + string"
  read_gif :: "'w \<Rightarrow> string \<Rightarrow> py_error + 'px image list"
  write_gif :: "string \<Rightarrow> 'px frame list \<Rightarrow> double \<Rightarrow> pyval \<Rightarrow> int \<Rightarrow> 'w \<Rightarrow> py_error + 'w"
  image_open :: "'w \<Rightarrow> string \<Rightarrow> py_error + 'px image"
  frame_size :: "'px frame \<Rightarrow> int \<times> int"
  parse_float :: "string \<Rightarrow> double option"

text \<open>
  \<^verbatim>\<open>
  def has_animated_gif_support():
      return bool(CROPDUSTER_GIFSICLE_PATH or (numpy and scipy))
  \<close>
\<close>

definition has_animated_gif_support :: "('px, 'w) settings \<Rightarrow> bool" where
  "has_animated_gif_support env =
     (truthy_str (CROPDUSTER_GIFSICLE_PATH env) \<or> (numpy env \<and> scipy env))"

datatype warning = Made_static | Using_numpy_algorithm

record 'w process_state =
  world :: 'w
  warnings :: "warning list"

text \<open>
  The branch without gifsicle:
  \<^verbatim>\<open>
  filename = getattr(im, 'filename', None)
  if not filename or not os.path.exists(filename):
      temp_file = tempfile.NamedTemporaryFile(suffix='.gif')
      filename = temp_file.name
      im.save(filename)
  contents = b''
  with open(filename, mode='rb') as f:
      contents += f.read()
  images = read_gif(filename, as_numpy=False)
  \<close>
\<close>

definition backing_file ::
  "('px, 'w) settings \<Rightarrow> 'px image \<Rightarrow> 'w \<Rightarrow> py_error + string \<times> 'w" where
  "backing_file env im w =
     (case (if truthy_str (filename im) then filename im else None) of
        Some name \<Rightarrow>
          if os_path_exists env w name then Inr (name, w)
          else (case NamedTemporaryFile env w of
                  Inl e \<Rightarrow> Inl e
                | Inr (tmp, w') \<Rightarrow>
                    (case frame_save env (Pil im) tmp [] w' of
                       Inl e \<Rightarrow> Inl e
                     | Inr w'' \<Rightarrow> Inr (tmp, w'')))
      | None \<Rightarrow>
          (case NamedTemporaryFile env w of
             Inl e \<Rightarrow> Inl e
           | Inr (tmp, w') \<Rightarrow>
               (case frame_save env (Pil im) tmp [] w' of
                  Inl e \<Rightarrow> Inl e
                | Inr w'' \<Rightarrow> Inr (tmp, w''))))"

definition numpy_frames ::
  "('px, 'w) settings \<Rightarrow> 'px image \<Rightarrow> 'w process_state \<Rightarrow>
   py_error + 'px frame list \<times> 'w process_state" where
  "numpy_frames env im st =
     (case backing_file env im (world st) of
        Inl e \<Rightarrow> Inl e
      | Inr (name, w) \<Rightarrow>
          (case read_bytes env w name of
             Inl e \<Rightarrow> Inl e
           | Inr contents \<Rightarrow>
               (case read_gif env w name of
                  Inl e \<Rightarrow> Inl e
                | Inr images \<Rightarrow> Inr (map Pil images, st\<lparr>world := w\<rparr>))))"

text \<open>
  \<^verbatim>\<open>
  images = [im]
  if is_animated:
      if not has_animated_gif_support():
          warnings.warn(...)
      elif CROPDUSTER_GIFSICLE_PATH:
          images = [GifsicleImage(im)]
      else:
          warnings.warn(...)
          ...
  \<close>
\<close>

definition load_images ::
  "('px, 'w) settings \<Rightarrow> 'px image \<Rightarrow> bool \<Rightarrow> 'w process_state \<Rightarrow>
   py_error + 'px frame list \<times> 'w process_state" where
  "load_images env im is_animated st =
     (if is_animated then
        (if \<not> has_animated_gif_support env then
           Inr ([Pil im], st\<lparr>warnings := warnings st @ [Made_static]\<rparr>)
         else if truthy_str (CROPDUSTER_GIFSICLE_PATH env) then
           (case GifsicleImage env im of
              Inl e \<Rightarrow> Inl e
            | Inr g \<Rightarrow> Inr ([g], st))
         else numpy_frames env im (st\<lparr>warnings := warnings st @ [Using_numpy_algorithm]\<rparr>))
      else Inr ([Pil im], st))"

text \<open>\<open>new_images = [callback(i) for i in images]\<close>; the callback may raise.\<close>

fun map_callback ::
  "('px frame \<Rightarrow> py_error + 'px frame) \<Rightarrow> 'px frame list \<Rightarrow> py_error + 'px frame list" where
  "map_callback callback [] = Inr []"
| "map_callback callback (i # images) =
     (case callback i of
        Inl e \<Rightarrow> Inl e
      | Inr i' \<Rightarrow>
          (case map_callback callback images of
             Inl e \<Rightarrow> Inl e
           | Inr rest \<Rightarrow> Inr (i' # rest)))"

text \<open>\<open>d.setdefault(k, v)\<close> on a dictionary kept as an association list.\<close>

definition setdefault :: "string \<Rightarrow> pyval \<Rightarrow> (string \<times> pyval) list \<Rightarrow> (string \<times> pyval) list" where
  "setdefault k v d = (case map_of d k of None \<Rightarrow> d @ [(k, v)] | Some old \<Rightarrow> d)"

text \<open>
  The body of \<open>if save_filename:\<close> up to the write:
  \<^verbatim>\<open>
  if is_animated and len(images) > 1:
      duration_ms = im.info.get('duration') or 100
      duration = float(duration_ms) / 1000.0
      repeat = True
      if im.info.get('loop', 0) != 0:
          repeat = im.info['loop']
      write_gif(save_filename, new_images, duration=duration, repeat=repeat, nq=nq, dispose=dispose)
  else:
      save_params = save_params or {}
      if im.format == 'JPEG':
          save_params.setdefault('quality', get_jpeg_quality(new_images[0].size[0], new_images[0].size[1]))
      if im.format in ('JPEG', 'PNG') and JPEG_SAVE_ICC_SUPPORTED:
          save_params.setdefault('icc_profile', im.info.get('icc_profile'))
      new_images[0].save(save_filename, **save_params)
  \<close>
\<close>

definition write_frames ::
  "('px, 'w) settings \<Rightarrow> 'px image \<Rightarrow> bool \<Rightarrow> string \<Rightarrow> 'px frame list \<Rightarrow> 'px frame list \<Rightarrow>
   int \<Rightarrow> (string \<times> pyval) list option \<Rightarrow> 'w \<Rightarrow> py_error + 'w" where
  "write_frames env im is_animated save_filename images new_images nq save_params w =
     (if is_animated \<and> 1 < length images then
        (let duration_ms =
               (case info im ''duration'' of
                  None \<Rightarrow> PyInt 100
                | Some v \<Rightarrow> if truthy v then v else PyInt 100)
         in case py_float (parse_float env) duration_ms of
              Inl e \<Rightarrow> Inl e
            | Inr ms \<Rightarrow>
                (case double_div ms (Finite 1000) of
                   Inl e \<Rightarrow> Inl e
                 | Inr duration \<Rightarrow>
                     (let repeat =
                            (case info im ''loop'' of
                               None \<Rightarrow> PyBool True
                             | Some v \<Rightarrow> if \<not> equals_zero v then v else PyBool True)
                      in write_gif env save_filename new_images duration repeat nq w)))
      else
        (case new_images of
           [] \<Rightarrow> Inl IndexError
         | first # others \<Rightarrow>
             (let params0 = (case save_params of None \<Rightarrow> [] | Some d \<Rightarrow> d);
                  params1 =
                    (if format im = Some ''JPEG''
                     then setdefault ''quality''
                            (PyInt (get_jpeg_quality env (fst (frame_size env first))
                                      (snd (frame_size env first)))) params0
                     else params0);
                  params2 =
                    (if (format im = Some ''JPEG'' \<or> format im = Some ''PNG'') \<and>
                        JPEG_SAVE_ICC_SUPPORTED env
                     then setdefault ''icc_profile''
                            (case info im ''icc_profile'' of None \<Rightarrow> PyNone | Some v \<Rightarrow> v) params1
                     else params1)
              in frame_save env first save_filename params2 w)))"

text \<open>
  The exception \<open>process_image\<close> raises itself,
  \<open>Exception("Animated gifs must be saved on each processing.")\<close>, and those
  that reach it from what it calls.
\<close>

datatype process_error = Animated_must_be_saved | Propagated py_error

text \<open>
  \<^verbatim>\<open>
  def process_image(im, save_filename=None, callback=lambda i: i, nq=0, save_params=None):
      is_animated = is_animated_gif(im)
      images = [im]
      ...
      new_images = [callback(i) for i in images]
      if is_animated and not save_filename:
          raise Exception("Animated gifs must be saved on each processing.")
      if save_filename:
          ...
          return PIL.Image.open(save_filename)
      return new_images[0]
  \<close>
\<close>

definition process_image ::
  "('px, 'w) settings \<Rightarrow> 'px image \<Rightarrow> string option \<Rightarrow> ('px frame \<Rightarrow> py_error + 'px frame) \<Rightarrow>
   int \<Rightarrow> (string \<times> pyval) list option \<Rightarrow> 'w process_state \<Rightarrow>
   process_error + 'px frame \<times> 'w process_state" where
  "process_image env im save_filename callback nq save_params st =
     (let is_animated = is_animated_gif im
      in case load_images env im is_animated st of
           Inl e \<Rightarrow> Inl (Propagated e)
         | Inr (images, st1) \<Rightarrow>
             (case map_callback callback images of
                Inl e \<Rightarrow> Inl (Propagated e)
              | Inr new_images \<Rightarrow>
                  if is_animated \<and> \<not> truthy_str save_filename then Inl Animated_must_be_saved
                  else
                    (case (if truthy_str save_filename then save_filename else None) of
                       Some name \<Rightarrow>
                         (case write_frames env im is_animated name images new_images nq
                                 save_params (world st1) of
                            Inl e \<Rightarrow> Inl (Propagated e)
                          | Inr w \<Rightarrow>
                              (case image_open env w name of
                                 Inl e \<Rightarrow> Inl (Propagated e)
                               | Inr opened \<Rightarrow> Inr (Pil opened, st1\<lparr>world := w\<rparr>)))
                     | None \<Rightarrow>
                         (case new_images of
                            [] \<Rightarrow> Inl (Propagated IndexError)
                          | first # others \<Rightarrow> Inr (first, st1)))))"

section \<open>Paths\<close>

text \<open>
  \<open>os.path.split\<close>, \<open>os.path.splitext\<close> and \<open>os.path.join\<close> of the POSIX
  flavour, on byte strings.
  \<^verbatim>\<open>
  def split(p):
      i = p.rfind('/') + 1
      head, tail = p[:i], p[i:]
      if head and head != '/'*len(head):
          head = head.rstrip('/')
      return head, tail
  \<close>
\<close>

type_synonym path = string

definition os_path_split :: "path \<Rightarrow> path \<times> path" where
  "os_path_split p =
     (let tail = rev (takeWhile (\<lambda>c. c \<noteq> CHR ''/'') (rev p));
          head = take (length p - length tail) p
      in (if head \<noteq> [] \<and> head \<noteq> replicate (length head) (CHR ''/'')
          then rev (dropWhile (\<lambda>c. c = CHR ''/'') (rev head))
          else head,
          tail))"

text \<open>\<open>p.rfind(c)\<close>: the last index of \<open>c\<close>, or -1.\<close>

definition rfind :: "char \<Rightarrow> string \<Rightarrow> int" where
  "rfind c p =
     (if c \<in> set p
      then int (length p) - 1 - int (length (takeWhile (\<lambda>d. d \<noteq> c) (rev p)))
      else - 1)"

text \<open>
  \<^verbatim>\<open>
  def _splitext(p, sep, altsep, extsep):
      sepIndex = p.rfind(sep)
      dotIndex = p.rfind(extsep)
      if dotIndex > sepIndex:
          filenameIndex = sepIndex + 1
          while filenameIndex < dotIndex:
              if p[filenameIndex] != extsep:
                  return p[:dotIndex], p[dotIndex:]
              filenameIndex += 1
      return p, ''
  \<close>
\<close>

definition os_path_splitext :: "path \<Rightarrow> path \<times> string" where
  "os_path_splitext p =
     (let sepIndex = rfind (CHR ''/'') p;
          dotIndex = rfind (CHR ''.'') p
      in if sepIndex < dotIndex \<and>
            list_ex (\<lambda>c. c \<noteq> CHR ''.'') (drop (nat (sepIndex + 1)) (take (nat dotIndex) p))
         then (take (nat dotIndex) p, drop (nat dotIndex) p)
         else (p, []))"

text \<open>
  \<^verbatim>\<open>
  def join(a, *p):
      path = a
      for b in p:
          if b.startswith('/'):
              path = b
          elif path == '' or path.endswith('/'):
              path +=  b
          else:
              path += '/' + b
      return path
  \<close>
\<close>

definition join_step :: "path \<Rightarrow> path \<Rightarrow> path" where
  "join_step p b =
     (if b \<noteq> [] \<and> hd b = CHR ''/'' then b
      else if p = [] \<or> last p = CHR ''/'' then p @ b
      else p @ ''/'' @ b)"

definition os_path_join :: "path \<Rightarrow> path list \<Rightarrow> path" where
  "os_path_join a p = foldl join_step a p"

section \<open>regenerate_thumbs.py: get_sizes\<close>

text \<open>\<open>Size = namedtuple('Size', ('name', 'path', 'crop', 'width', 'height'))\<close>\<close>

datatype Size =
  Size (size_name: string) (size_path: path) (size_crop: bool)
       (size_width: "int option") (size_height: "int option")

text \<open>
  \<open>CropDusterImage\<close> is the class \<open>Image\<close> of \<open>models.py\<close>.  Of its
  fields \<open>get_sizes\<close> meets the path and the pixel dimensions of
  \<open>cd_image.image\<close>; the size sets of an image are its field \<open>size_sets\<close>,
  and the sizes of a size set are its reverse accessor \<open>imagesize_set\<close>.
\<close>

record ImageSizeSet =
  set_name :: string
  set_slug :: string
  imagesize_set :: "ImageSize list"

record CropDusterImage =
  image_path :: path
  image_width :: int
  image_height :: int
  size_sets :: "ImageSizeSet list"

text \<open>
  \<^verbatim>\<open>
  def thumbnail_path(self, size):
      file_path, file = os.path.split(self.image.path)
      file_root, extension = os.path.splitext(file)
      return u"%s" % os.path.join(file_path, file_root, size.slug) + extension
  \<close>
\<close>

definition thumbnail_path :: "CropDusterImage \<Rightarrow> ImageSize \<Rightarrow> path" where
  "thumbnail_path cd_image sz =
     (let (file_path, file) = os_path_split (image_path cd_image);
          (file_root, extension) = os_path_splitext file
      in os_path_join file_path [file_root, slug sz] @ extension)"

text \<open>
  Reading an attribute that the class of the object does not define raises
  \<open>AttributeError\<close>.  \<open>get_sizes\<close> reads \<open>cd_image.size_set\<close>, then \<open>.size_set\<close>
  of the result, and \<open>size.auto_size\<close>; \<open>models.py\<close> defines \<open>size_sets\<close> on
  \<open>Image\<close>, \<open>imagesize_set\<close> on \<open>ImageSizeSet\<close> and \<open>auto_crop\<close> on
  \<open>ImageSize\<close>, and none of the three names read.
\<close>

definition Image_size_set :: "CropDusterImage \<Rightarrow> py_error + ImageSizeSet" where
  "Image_size_set cd_image = Inl AttributeError"

definition ImageSizeSet_size_set :: "ImageSizeSet \<Rightarrow> py_error + ImageSize list" where
  "ImageSizeSet_size_set size_set = Inl AttributeError"

definition ImageSize_auto_size :: "ImageSize \<Rightarrow> py_error + bool" where
  "ImageSize_auto_size sz = Inl AttributeError"

text \<open>
  \<open>a >= b\<close> of Python 2 where \<open>b\<close> may be \<open>None\<close>: \<open>None\<close> is smaller than
  every number.
\<close>

definition py2_ge :: "int \<Rightarrow> int option \<Rightarrow> bool" where
  "py2_ge a b = (case b of None \<Rightarrow> True | Some n \<Rightarrow> n \<le> a)"

text \<open>
  \<^verbatim>\<open>
  sizes = []
  orig_width, orig_height = cd_image.image.width, cd_image.image.height
  for size in cd_image.size_set.size_set.all():
      if stretch or (orig_width >= size.width and
                     orig_height >= size.height):
          sizes.append( Size(size.slug,
                             cd_image.thumbnail_path(size),
                             size.auto_size,
                             size.width,
                             size.height) )
  return set(sizes)
  \<close>
\<close>

fun get_sizes_loop ::
  "CropDusterImage \<Rightarrow> bool \<Rightarrow> int \<Rightarrow> int \<Rightarrow> ImageSize list \<Rightarrow> Size list \<Rightarrow>
   py_error + Size list" where
  "get_sizes_loop cd_image stretch orig_width orig_height [] sizes = Inr sizes"
| "get_sizes_loop cd_image stretch orig_width orig_height (sz # rest) sizes =
     (if stretch \<or> (py2_ge orig_width (width sz) \<and> py2_ge orig_height (height sz))
      then (case ImageSize_auto_size sz of
              Inl e \<Rightarrow> Inl e
            | Inr auto_size \<Rightarrow>
                get_sizes_loop cd_image stretch orig_width orig_height rest
                  (sizes @ [Size (slug sz) (thumbnail_path cd_image sz) auto_size
                              (width sz) (height sz)]))
      else get_sizes_loop cd_image stretch orig_width orig_height rest sizes)"

definition get_sizes :: "CropDusterImage \<Rightarrow> bool \<Rightarrow> py_error + Size set" where
  "get_sizes cd_image stretch =
     (let orig_width = image_width cd_image;
          orig_height = image_height cd_image
      in case Image_size_set cd_image of
           Inl e \<Rightarrow> Inl e
         | Inr size_set \<Rightarrow>
             (case ImageSizeSet_size_set size_set of
                Inl e \<Rightarrow> Inl e
              | Inr rows \<Rightarrow>
                  (case get_sizes_loop cd_image stretch orig_width orig_height rows [] of
                     Inl e \<Rightarrow> Inl e
                   | Inr sizes \<Rightarrow> Inr (set sizes))))"

section \<open>regenerate_thumbs.py: resize_image\<close>

text \<open>
  The file system: the bytes of each regular file, and the directories.
  Paths are compared as written.
\<close>

record filesystem =
  files :: "path \<rightharpoonup> string"
  dirs :: "path set"

definition os_path_isfile :: "filesystem \<Rightarrow> path \<Rightarrow> bool" where
  "os_path_isfile fs p = (files fs p \<noteq> None)"

definition os_path_isdir :: "filesystem \<Rightarrow> path \<Rightarrow> bool" where
  "os_path_isdir fs p = (p \<in> dirs fs)"

text \<open>\<open>os.stat(p).st_size\<close> of a regular file.\<close>

definition st_size :: "filesystem \<Rightarrow> path \<Rightarrow> nat" where
  "st_size fs p = (case files fs p of None \<Rightarrow> 0 | Some bytes \<Rightarrow> length bytes)"

text \<open>
  What \<open>resize_image\<close> calls and this repository's sources do not define:
  \<^item> \<open>rescale\<close> of \<open>cropduster.utils\<close>, which returns the thumbnail or raises;
  \<^item> the encoder behind \<open>Image.save\<close>, which returns the bytes of the file or
    raises, perhaps after some bytes have reached the file;
  \<^item> whether the operating system refuses \<open>os.makedirs\<close>.
\<close>

record 'px environment =
  rescale :: "'px image \<Rightarrow> int option \<Rightarrow> int option \<Rightarrow> bool \<Rightarrow> py_error + 'px image"
  encode :: "'px image \<Rightarrow> string option \<Rightarrow> (string \<times> int) list \<Rightarrow>
             (py_error \<times> string option) + string"
  makedirs_refused :: "filesystem \<Rightarrow> path \<Rightarrow> bool"

text \<open>
  \<open>os.makedirs(folder)\<close> creates the directory and the missing ones above it,
  and nothing else; it raises \<open>OSError\<close> when a regular file is in the way or
  the system refuses.
\<close>

definition parent_dirs :: "path \<Rightarrow> path list" where
  "parent_dirs folder =
     map (\<lambda>i. take i folder) (filter (\<lambda>i. folder ! i = CHR ''/'') [1..<length folder])"

definition os_makedirs :: "'px environment \<Rightarrow> path \<Rightarrow> filesystem \<Rightarrow> py_error + filesystem" where
  "os_makedirs env folder fs =
     (if makedirs_refused env fs folder \<or> files fs folder \<noteq> None then Inl OSError
      else Inr (fs\<lparr>dirs := insert folder (set (parent_dirs folder) \<union> dirs fs)\<rparr>))"

text \<open>
  \<open>thumbnail.save(p, format, **params)\<close> opens \<open>p\<close> for writing, which fails
  on a directory, and writes what the encoder produces.
\<close>

definition pil_save ::
  "'px environment \<Rightarrow> 'px image \<Rightarrow> path \<Rightarrow> string option \<Rightarrow> (string \<times> int) list \<Rightarrow>
   filesystem \<Rightarrow> py_error option \<times> filesystem" where
  "pil_save env im p fmt params fs =
     (if p \<in> dirs fs then (Some IOError, fs)
      else case encode env im fmt params of
             Inr bytes \<Rightarrow> (None, fs\<lparr>files := (files fs)(p \<mapsto> bytes)\<rparr>)
           | Inl (e, None) \<Rightarrow> (Some e, fs)
           | Inl (e, Some partial) \<Rightarrow> (Some e, fs\<lparr>files := (files fs)(p \<mapsto> partial)\<rparr>))"

text \<open>
  \<open>os.rename(src, dst)\<close> replaces the regular file \<open>dst\<close> by \<open>src\<close>; it raises
  \<open>OSError\<close> when \<open>src\<close> is missing or \<open>dst\<close> is a directory.
\<close>

definition os_rename :: "path \<Rightarrow> path \<Rightarrow> filesystem \<Rightarrow> py_error + filesystem" where
  "os_rename src dst fs =
     (case files fs src of
        None \<Rightarrow> Inl OSError
      | Some bytes \<Rightarrow>
          if dst \<in> dirs fs then Inl OSError
          else Inr (fs\<lparr>files := ((files fs)(src := None))(dst \<mapsto> bytes)\<rparr>))"

text \<open>\<open>str.lower\<close> and \<open>str.strip\<close> on ASCII.\<close>

definition py_lower :: "string \<Rightarrow> string" where
  "py_lower s =
     map (\<lambda>c. let n = (of_char c :: nat)
              in if 65 \<le> n \<and> n \<le> 90 then char_of (n + 32) else c) s"

definition is_space :: "char \<Rightarrow> bool" where
  "is_space c = ((of_char c :: nat) \<in> {9, 10, 11, 12, 13, 32})"

definition py_strip :: "string \<Rightarrow> string" where
  "py_strip s = rev (dropWhile is_space (rev (dropWhile is_space s)))"

text \<open>The calls of \<open>logging\<close>, by the message they format.\<close>

datatype log_entry =
    Converting string "int option" "int option"
  | Exists_skipping string
  | Creating_directory path
  | Error_saving path py_error

text \<open>
  The state the loop of \<open>resize_image\<close> works on: the file system, the log,
  the lines \<open>raw_input\<close> has still to read, and the local variable
  \<open>tmp_path\<close>, unbound until the first assignment.
\<close>

record state =
  fs :: filesystem
  log :: "log_entry list"
  stdin :: "string list"
  tmp_path :: "path option"

text \<open>How one pass of the loop body ends.\<close>

datatype outcome = Skipped | Renamed | Continued | Raised py_error

text \<open>\<open>IMG_TYPE_PARAMS = {'JPEG': dict(quality=95)}\<close>\<close>

definition IMG_TYPE_PARAMS :: "string \<rightharpoonup> (string \<times> int) list" where
  "IMG_TYPE_PARAMS = [''JPEG'' \<mapsto> [(''quality'', 95)]]"

text \<open>
  The body of \<open>try\<close>:
  \<^verbatim>\<open>
  thumbnail = rescale(image.copy(), size.width, size.height, crop=size.crop)
  tmp_path = size.path + '.tmp'
  thumbnail.save(tmp_path, image.format, **img_params)
  \<close>
\<close>

definition try_save ::
  "'px environment \<Rightarrow> 'px image \<Rightarrow> (string \<times> int) list \<Rightarrow> Size \<Rightarrow> state \<Rightarrow>
   py_error option \<times> state" where
  "try_save env img img_params sz st =
     (case rescale env img (size_width sz) (size_height sz) (size_crop sz) of
        Inl e \<Rightarrow> (Some e, st)
      | Inr thumbnail \<Rightarrow>
          (let st' = st\<lparr>tmp_path := Some (size_path sz @ ''.tmp'')\<rparr>;
               (r, fs') = pil_save env thumbnail (size_path sz @ ''.tmp'') (format img)
                            img_params (fs st')
           in (r, st'\<lparr>fs := fs'\<rparr>)))"

text \<open>
  The handler:
  \<^verbatim>\<open>
  except Exception, e:
      logging.exception('Error saving thumbnail to %s' % tmp_path)
      resp = raw_input('Continue? [Y/n]: ')
      if resp.lower().strip() == 'n':
          raise SystemExit('Exiting...')
  \<close>
  \<open>SystemExit\<close> is no \<open>Exception\<close> and passes through.  Reading \<open>tmp_path\<close>
  before its first assignment raises \<open>UnboundLocalError\<close>; \<open>raw_input\<close> at the
  end of the input raises \<open>EOFError\<close>.
\<close>

definition except_Exception :: "py_error \<Rightarrow> state \<Rightarrow> outcome \<times> state" where
  "except_Exception e st =
     (if e = SystemExit then (Raised e, st)
      else case tmp_path st of
             None \<Rightarrow> (Raised UnboundLocalError, st)
           | Some p \<Rightarrow>
               (let st' = st\<lparr>log := log st @ [Error_saving p e]\<rparr>
                in case stdin st' of
                     [] \<Rightarrow> (Raised EOFError, st')
                   | resp # rest \<Rightarrow>
                       if py_strip (py_lower resp) = ''n''
                       then (Raised SystemExit, st'\<lparr>stdin := rest\<rparr>)
                       else (Continued, st'\<lparr>stdin := rest\<rparr>)))"

text \<open>
  The body of \<open>for size in sizes\<close>:
  \<^verbatim>\<open>
  logging.debug('Converting image to size `%s` (%s x %s)' % (size.name, size.width, size.height))
  if not force and os.path.isfile(size.path) and os.stat(size.path).st_size > 0:
      logging.debug(' - Image `%s` exists, skipping...' % size.name)
      continue
  folder, _basename = os.path.split(size.path)
  if not os.path.isdir(folder):
      logging.debug(' - Directory %s does not exist.  Creating...' % folder)
      os.makedirs(folder)
  try: ...
  except Exception, e: ...
  else:
      os.rename(tmp_path, size.path)
  \<close>
\<close>

definition ensure_folder :: "'px environment \<Rightarrow> path \<Rightarrow> state \<Rightarrow> py_error option \<times> state" where
  "ensure_folder env folder st =
     (if \<not> os_path_isdir (fs st) folder then
        (let st' = st\<lparr>log := log st @ [Creating_directory folder]\<rparr>
         in case os_makedirs env folder (fs st') of
              Inl e \<Rightarrow> (Some e, st')
            | Inr fs' \<Rightarrow> (None, st'\<lparr>fs := fs'\<rparr>))
      else (None, st))"

definition resize_size ::
  "'px environment \<Rightarrow> 'px image \<Rightarrow> (string \<times> int) list \<Rightarrow> bool \<Rightarrow> Size \<Rightarrow> state \<Rightarrow>
   outcome \<times> state" where
  "resize_size env img img_params force sz st =
     (let st1 = st\<lparr>log := log st @ [Converting (size_name sz) (size_width sz) (size_height sz)]\<rparr>
      in if \<not> force \<and> os_path_isfile (fs st1) (size_path sz) \<and> 0 < st_size (fs st1) (size_path sz)
         then (Skipped, st1\<lparr>log := log st1 @ [Exists_skipping (size_name sz)]\<rparr>)
         else
           (let (folder, basename) = os_path_split (size_path sz)
            in case ensure_folder env folder st1 of
                 (Some e, st2) \<Rightarrow> (Raised e, st2)
               | (None, st2) \<Rightarrow>
                   (case try_save env img img_params sz st2 of
                      (Some e, st3) \<Rightarrow> except_Exception e st3
                    | (None, st3) \<Rightarrow>
                        (case tmp_path st3 of
                           None \<Rightarrow> (Raised UnboundLocalError, st3)
                         | Some tmp \<Rightarrow>
                             (case os_rename tmp (size_path sz) (fs st3) of
                                Inl e \<Rightarrow> (Raised e, st3)
                              | Inr fs' \<Rightarrow> (Renamed, st3\<lparr>fs := fs'\<rparr>))))))"

text \<open>
  \<open>resize_image\<close>: the sizes in the order the set is iterated; an exception
  that leaves the body ends the loop.
  \<^verbatim>\<open>
  img_params = (self.IMG_TYPE_PARAMS.get(image.format) or {}).copy()
  for size in sizes: ...
  \<close>
\<close>

fun resize_loop ::
  "'px environment \<Rightarrow> 'px image \<Rightarrow> (string \<times> int) list \<Rightarrow> bool \<Rightarrow> Size list \<Rightarrow> state \<Rightarrow>
   py_error option \<times> state" where
  "resize_loop env img img_params force [] st = (None, st)"
| "resize_loop env img img_params force (sz # rest) st =
     (case resize_size env img img_params force sz st of
        (Raised e, st') \<Rightarrow> (Some e, st')
      | (other, st') \<Rightarrow> resize_loop env img img_params force rest st')"

definition img_params_for :: "'px image \<Rightarrow> (string \<times> int) list" where
  "img_params_for img =
     (case format img of
        None \<Rightarrow> []
      | Some f \<Rightarrow> (case IMG_TYPE_PARAMS f of None \<Rightarrow> [] | Some params \<Rightarrow> params))"

definition resize_image ::
  "'px environment \<Rightarrow> 'px image \<Rightarrow> Size list \<Rightarrow> bool \<Rightarrow> state \<Rightarrow> py_error option \<times> state" where
  "resize_image env img sizes force st =
     (let img_params = img_params_for img
      in resize_loop env img img_params force sizes st)"

section \<open>Concrete inputs\<close>

text \<open>The size of the spec's scenario: width 200, no height, ratio 4.\<close>

definition thumb_spec :: ImageSize where
  "thumb_spec = \<lparr>slug = ''thumb'', height = None, width = Some 200,
     aspect_ratio = Some (Float_val (Finite 4)), auto_crop = False, retina = False\<rparr>"


definition size_small :: ImageSize where
  "size_small = \<lparr>slug = ''small'', height = Some 150, width = Some 200,
     aspect_ratio = Some (Float_val (Finite 1)), auto_crop = False, retina = False\<rparr>"

definition size_large :: ImageSize where
  "size_large = \<lparr>slug = ''large'', height = Some 900, width = Some 1200,
     aspect_ratio = Some (Float_val (Finite 1)), auto_crop = False, retina = False\<rparr>"

text \<open>An 800 x 600 original with one size set, which lists one size twice.\<close>

definition photo :: CropDusterImage where
  "photo = \<lparr>image_path = ''/media/img/photo.jpg'', image_width = 800, image_height = 600,
     size_sets = [\<lparr>set_name = ''Article'', set_slug = ''article'',
                   imagesize_set = [size_small, size_large, size_small]\<rparr>]\<rparr>"



definition ratio_133 :: double where
  "ratio_133 = round_double (133 / 100)"

definition ratio_115 :: double where
  "ratio_115 = round_double (115 / 100)"

definition wide_spec :: ImageSize where
  "wide_spec = \<lparr>slug = ''wide'', height = None, width = Some 133,
     aspect_ratio = Some (Float_val ratio_133), auto_crop = False, retina = False\<rparr>"

definition tall_spec :: ImageSize where
  "tall_spec = \<lparr>slug = ''tall'', height = Some 60, width = None,
     aspect_ratio = Some (Float_val ratio_115), auto_crop = False, retina = False\<rparr>"

text \<open>One size of a JPEG original, and environments in which encoding works and fails.\<close>

definition thumb_size :: Size where
  "thumb_size = Size ''thumb'' ''/media/img/photo/thumb.jpg'' False (Some 200) (Some 150)"


definition jpeg :: "unit image" where
  "jpeg = \<lparr>format = Some ''JPEG'', info = Map.empty, filename = Some ''/media/img/photo.jpg'',
     pixels = ()\<rparr>"

definition good_env :: "unit environment" where
  "good_env = \<lparr>rescale = (\<lambda>im w h c. Inr im), encode = (\<lambda>im f p. Inr ''JFIF''),
     makedirs_refused = (\<lambda>fs p. False)\<rparr>"

definition failing_env :: "unit environment" where
  "failing_env = \<lparr>rescale = (\<lambda>im w h c. Inr im),
     encode = (\<lambda>im f p. Inl (IOError, Some ''JF'')),
     makedirs_refused = (\<lambda>fs p. False)\<rparr>"


definition fresh_state :: state where
  "fresh_state = \<lparr>fs = \<lparr>files = [''/media/img/photo/thumb.jpg'' \<mapsto> ''old''],
                        dirs = {''/media/img/photo''}\<rparr>,
     log = [], stdin = [''y''], tmp_path = None\<rparr>"


text \<open>
  An installation with neither gifsicle nor numpy, an animated GIF, and the
  state before the call.
\<close>

definition static_settings :: "(unit, unit) settings" where
  "static_settings = \<lparr>CROPDUSTER_GIFSICLE_PATH = None, numpy = False, scipy = False,
     JPEG_SAVE_ICC_SUPPORTED = False, get_jpeg_quality = (\<lambda>w h. 90),
     GifsicleImage = (\<lambda>im. Inr (Gifsicle im)),
     os_path_exists = (\<lambda>w p. True),
     NamedTemporaryFile = (\<lambda>w. Inr (''/tmp/tmp0.gif'', w)),
     frame_save = (\<lambda>f p d w. Inr w),
     read_bytes = (\<lambda>w p. Inr []),
     read_gif = (\<lambda>w p. Inr []),
     write_gif = (\<lambda>p fs d r nq w. Inr w),
     image_open = (\<lambda>w p. Inl IOError),
     frame_size = (\<lambda>f. (1, 1)),
     parse_float = (\<lambda>s. None)\<rparr>"

definition animated_gif :: "unit image" where
  "animated_gif = \<lparr>format = Some ''GIF'',
     info = [''extension'' \<mapsto> PyTuple [PyStr ''NETSCAPE2.0'', PyInt 795], ''duration'' \<mapsto> PyInt 40],
     filename = Some ''/media/img/anim.gif'', pixels = ()\<rparr>"

definition start :: "unit process_state" where
  "start = \<lparr>world = (), warnings = []\<rparr>"

section \<open>ImageSize: resolving the geometry\<close>






text \<open>
  The code at ratios that are no binary fractions: 133 / 1.33 is 100.0 as a
  double, though the exact quotient lies below 100; 60 * 1.15 is 69.0; and
  107 / 40 is a double below 2.675, which rounds to 2.67.
\<close>

lemma get_height_wide_spec: "get_height wide_spec = Inr (Some 100)"
  by code_simp

lemma get_width_tall_spec: "get_width tall_spec = Inr (Some 69)"
  by code_simp

lemma rounded_ratio_107_40: "rounded_ratio 107 40 = Inr (Float_val (round_double (267 / 100)))"
  by code_simp




section \<open>ImageSize: save\<close>

text \<open>
  C5, as the spec states it, fails: for the size of width 200, no height and
  ratio 4, the height derived after \<open>save\<close> is not int(200 / 4).
\<close>

theorem save_keeps_ratio_counterexample:
  "width thumb_spec = Some 200 \<and> height thumb_spec = None \<and>
   aspect_ratio thumb_spec = Some (Float_val (Finite 4)) \<and>
   get_height thumb_spec = Inr (Some (py_int (of_int 200 / 4))) \<and>
   save thumb_spec = Inr (thumb_spec\<lparr>aspect_ratio := Some (Int_val 1)\<rparr>) \<and>
   get_height (thumb_spec\<lparr>aspect_ratio := Some (Int_val 1)\<rparr>)
     \<noteq> Inr (Some (py_int (of_int 200 / 4)))"
proof -
  have h: "get_height thumb_spec = Inr (Some 50)"
    by code_simp
  have s: "save thumb_spec = Inr (thumb_spec\<lparr>aspect_ratio := Some (Int_val 1)\<rparr>)"
    by (simp add: save_def thumb_spec_def truthy_int_def)
  have a: "get_height (thumb_spec\<lparr>aspect_ratio := Some (Int_val 1)\<rparr>) = Inr (Some 200)"
    by (simp add: get_height_def thumb_spec_def truthy_int_def truthy_ratio_def)
  from h s a show ?thesis
    by (simp add: py_int_def) (simp add: thumb_spec_def)
qed

text \<open>
  C5, amended.  \<open>save\<close> overwrites the aspect ratio: for every size with a
  width (set and not zero), no height and an explicit ratio r, \<open>save\<close> returns,
  the ratio after it is 1 and the height derived by \<open>get_height\<close> is the width
  itself.
\<close>

theorem save_overwrites_ratio:
  "width s = Some w \<and> w \<noteq> 0 \<and> height s = None \<and> aspect_ratio s = Some r \<longrightarrow>
     (\<exists>s'. save s = Inr s' \<and> aspect_ratio s' = Some (Int_val 1) \<and>
            get_height s' = Inr (Some w))"
  by (auto simp: save_def get_height_def truthy_int_def truthy_ratio_def)

theorem save_overwrites_ratio_witness:
  "width thumb_spec = Some 200 \<and> (200::int) \<noteq> 0 \<and> height thumb_spec = None \<and>
   aspect_ratio thumb_spec = Some (Float_val (Finite 4)) \<and>
   (\<exists>s'. save thumb_spec = Inr s' \<and> aspect_ratio s' = Some (Int_val 1) \<and>
          get_height s' = Inr (Some 200))"
  using save_overwrites_ratio [of thumb_spec 200 "Float_val (Finite 4)"]
  by (simp add: thumb_spec_def)

section \<open>ImageSize: get_retina\<close>

text \<open>
  C6.  The spec has \<open>get_retina\<close> return the doubled dimensions without an
  error.  The code raises \<open>TypeError\<close>, here at a size of 200 x 150:
  \<open>get_dimensions\<close> calls the value of the field \<open>aspect_ratio\<close>.
\<close>

theorem get_retina_raises:
  "get_retina size_small = Inl TypeError"
  by (simp add: get_retina_def get_dimensions_def call_field_value_def get_width_def
        get_height_def size_small_def)

text \<open>No size gets through \<open>get_retina\<close>.\<close>

lemma get_retina_always_raises:
  "\<exists>e. get_retina s = Inl e"
  by (simp add: get_retina_def get_dimensions_def call_field_value_def split: sum.splits)

section \<open>smart_resize\<close>

text \<open>
  C9.  An image no wider and no higher than the target is returned as it is.
\<close>

theorem smart_resize_noop:
  "im_size im = (w, h) \<Longrightarrow> w \<le> final_w \<Longrightarrow> h \<le> final_h \<Longrightarrow>
     smart_resize pillow_version im final_w final_h = im"
  by (simp add: smart_resize_def)

theorem smart_resize_noop_witness:
  "im_size (Decoded 80 60) = (80, 60) \<and> (80::int) \<le> 100 \<and> (60::int) \<le> 60 \<and>
   smart_resize None (Decoded 80 60) 100 60 = Decoded 80 60"
  using smart_resize_noop [of "Decoded 80 60" 80 60 100 60 None] by simp

text \<open>
  C1.  The spec has the source cropped to multiples of 8 before the coarse
  pass.  On a 100 x 100 source with target 10 x 10 and no improved bicubic
  filter, the coarse pass runs on the uncropped source, and 100 is no multiple
  of 8.
\<close>

theorem smart_resize_no_precrop:
  "smart_resize None (Decoded 100 100) 10 10 =
     Resized (Resized (Decoded 100 100) (25, 25) NEAREST) (10, 10) ANTIALIAS \<and>
   (100::int) mod 8 = 4"
  by (simp add: smart_resize_def improved_bicubic_def pil_resize_def py_int_def)

text \<open>No call of \<open>smart_resize\<close> adds a crop to the history of the image.\<close>

lemma eighths_loop_crop_count:
  "crop_count (eighths_loop is im ow oh gw gh) = crop_count im"
  by (induction "is") (simp_all add: Let_def pil_resize_def split: prod.splits)

lemma smart_resize_never_crops:
  "crop_count (smart_resize pv im fw fh) = crop_count im"
  by (simp add: smart_resize_def Let_def pil_resize_def eighths_loop_crop_count
        split: prod.splits)

text \<open>
  C2.  The spec has the coarse pass scale the height by the ratio as well.
  On a 204 x 100 source with target 10 x 10 the ratio chosen is 2/8 and the
  intermediate image is 51 x 51, not 51 x 25.
\<close>

theorem smart_resize_coarse_pass_square:
  "smart_resize None (Decoded 204 100) 10 10 =
     Resized (Resized (Decoded 204 100) (51, 51) NEAREST) (10, 10) ANTIALIAS \<and>
   (py_int (of_int 204 * (2 / 8)), py_int (of_int 100 * (2 / 8))) = (51, 25)"
  by (simp add: smart_resize_def improved_bicubic_def pil_resize_def py_int_def)

text \<open>The final pass gives the target size whenever the image is resized at all.\<close>

lemma smart_resize_final_size:
  "im_size im = (w, h) \<Longrightarrow> \<not> (w \<le> fw \<and> h \<le> fh) \<Longrightarrow>
     im_size (smart_resize pv im fw fh) = (fw, fh)"
  by (auto simp: smart_resize_def Let_def pil_resize_def)

section \<open>get_sizes\<close>

text \<open>The thumbnail of a size lies in the folder named after the original.\<close>

lemma thumbnail_path_photo:
  "thumbnail_path photo thumb_spec = ''/media/img/photo/thumb.jpg''"
  by (simp add: thumbnail_path_def photo_def thumb_spec_def os_path_split_def
        os_path_splitext_def os_path_join_def join_step_def rfind_def Let_def)

text \<open>
  C10.  The claim has \<open>get_sizes\<close> return the set of \<open>Size\<close> tuples of the
  sizes that pass the filter.  On an \<open>Image\<close> of \<open>models.py\<close>, here an
  800 x 600 original with three sizes, it raises \<open>AttributeError\<close>: the image
  has no attribute \<open>size_set\<close>.
\<close>

theorem get_sizes_raises:
  "get_sizes photo False = Inl AttributeError"
  by (simp add: get_sizes_def Image_size_set_def)

text \<open>So it does for every image, with and without \<open>stretch\<close>.\<close>

lemma get_sizes_always_raises:
  "get_sizes cd_image stretch = Inl AttributeError"
  by (simp add: get_sizes_def Image_size_set_def)

section \<open>resize_image: one pass of the loop\<close>

lemma tmp_neq: "p @ ''.tmp'' \<noteq> (p::string)"
  by simp

lemma ensure_folder_files:
  "ensure_folder env folder st = (r, st2) \<Longrightarrow> files (fs st2) = files (fs st)"
  by (auto simp: ensure_folder_def os_makedirs_def Let_def split: if_splits sum.splits)

lemma ensure_folder_present:
  "os_path_isdir (fs st) folder \<Longrightarrow> ensure_folder env folder st = (None, st)"
  by (simp add: ensure_folder_def)

lemma pil_save_frame:
  "pil_save env im p fmt params fs0 = (r, fs1) \<Longrightarrow>
     dirs fs1 = dirs fs0 \<and> (\<forall>q. q \<noteq> p \<longrightarrow> files fs1 q = files fs0 q)"
  by (auto simp: pil_save_def split: if_splits sum.splits prod.splits option.splits)

lemma pil_save_ok:
  "pil_save env im p fmt params fs0 = (None, fs1) \<Longrightarrow>
     \<exists>bytes. encode env im fmt params = Inr bytes \<and> files fs1 p = Some bytes"
  by (auto simp: pil_save_def split: if_splits sum.splits prod.splits option.splits)

lemma pil_save_succeeds:
  "p \<notin> dirs fs0 \<Longrightarrow> encode env im fmt params = Inr bytes \<Longrightarrow>
     pil_save env im p fmt params fs0 = (None, fs0\<lparr>files := (files fs0)(p \<mapsto> bytes)\<rparr>)"
  by (simp add: pil_save_def)

lemma try_save_frame:
  "try_save env img params sz st = (r, st3) \<Longrightarrow>
     dirs (fs st3) = dirs (fs st) \<and>
     (\<forall>q. q \<noteq> size_path sz @ ''.tmp'' \<longrightarrow> files (fs st3) q = files (fs st) q)"
  by (auto simp: try_save_def Let_def split: sum.splits prod.splits dest: pil_save_frame)

lemma try_save_ok:
  "try_save env img params sz st = (None, st3) \<Longrightarrow>
     \<exists>thumbnail bytes.
        rescale env img (size_width sz) (size_height sz) (size_crop sz) = Inr thumbnail \<and>
        encode env thumbnail (format img) params = Inr bytes \<and>
        files (fs st3) (size_path sz @ ''.tmp'') = Some bytes \<and>
        tmp_path st3 = Some (size_path sz @ ''.tmp'')"
  by (auto simp: try_save_def Let_def split: sum.splits prod.splits dest: pil_save_ok)

lemma try_save_raises:
  "try_save env img params sz st = (Some e, st3) \<Longrightarrow>
     (\<exists>e'. rescale env img (size_width sz) (size_height sz) (size_crop sz) = Inl e') \<or>
     (\<exists>thumbnail. rescale env img (size_width sz) (size_height sz) (size_crop sz) = Inr thumbnail \<and>
        (size_path sz @ ''.tmp'' \<in> dirs (fs st) \<or>
         (\<exists>e'. encode env thumbnail (format img) params = Inl e')))"
  by (auto simp: try_save_def Let_def pil_save_def split: sum.splits prod.splits if_splits option.splits)


lemma except_Exception_frame:
  "except_Exception e st = (out, st') \<Longrightarrow>
     fs st' = fs st \<and> out \<noteq> Renamed \<and> out \<noteq> Skipped"
  by (auto simp: except_Exception_def Let_def split: if_splits option.splits list.splits)

lemma os_rename_ok:
  "os_rename src dst fs0 = Inr fs1 \<Longrightarrow>
     files fs1 dst = files fs0 src \<and> files fs0 src \<noteq> None \<and>
     (\<forall>q. q \<noteq> src \<and> q \<noteq> dst \<longrightarrow> files fs1 q = files fs0 q)"
  by (auto simp: os_rename_def split: option.splits if_splits)

lemma resize_size_skipped:
  "\<not> force \<and> os_path_isfile (fs st) (size_path sz) \<and> 0 < st_size (fs st) (size_path sz) \<Longrightarrow>
     resize_size env img params force sz st =
       (Skipped, st\<lparr>log := log st @ [Converting (size_name sz) (size_width sz) (size_height sz),
                                      Exists_skipping (size_name sz)]\<rparr>)"
  by (simp add: resize_size_def Let_def)

lemma resize_size_attempt:
  assumes "\<not> (\<not> force \<and> os_path_isfile (fs st) (size_path sz) \<and> 0 < st_size (fs st) (size_path sz))"
    and "resize_size env img params force sz st = (out, st')"
  shows "out \<noteq> Skipped \<and>
         (\<forall>q. q \<noteq> size_path sz \<and> q \<noteq> size_path sz @ ''.tmp'' \<longrightarrow>
               files (fs st') q = files (fs st) q) \<and>
         (out \<noteq> Renamed \<longrightarrow> files (fs st') (size_path sz) = files (fs st) (size_path sz)) \<and>
         (out = Renamed \<longrightarrow>
            (\<exists>thumbnail bytes.
               rescale env img (size_width sz) (size_height sz) (size_crop sz) = Inr thumbnail \<and>
               encode env thumbnail (format img) params = Inr bytes \<and>
               files (fs st') (size_path sz) = Some bytes))"
proof -
  let ?st1 = "st\<lparr>log := log st @ [Converting (size_name sz) (size_width sz) (size_height sz)]\<rparr>"
  obtain folder base where sp: "os_path_split (size_path sz) = (folder, base)"
    by (cases "os_path_split (size_path sz)")
  have body: "(case ensure_folder env folder ?st1 of
                 (Some e, st2) \<Rightarrow> (Raised e, st2)
               | (None, st2) \<Rightarrow>
                   (case try_save env img params sz st2 of
                      (Some e, st3) \<Rightarrow> except_Exception e st3
                    | (None, st3) \<Rightarrow>
                        (case tmp_path st3 of
                           None \<Rightarrow> (Raised UnboundLocalError, st3)
                         | Some tmp \<Rightarrow>
                             (case os_rename tmp (size_path sz) (fs st3) of
                                Inl e \<Rightarrow> (Raised e, st3)
                              | Inr fs' \<Rightarrow> (Renamed, st3\<lparr>fs := fs'\<rparr>))))) = (out, st')"
    using assms sp
    by (cases force; cases "os_path_isfile (fs st) (size_path sz)";
        simp add: resize_size_def Let_def)
  obtain r2 st2 where ef: "ensure_folder env folder ?st1 = (r2, st2)"
    by (cases "ensure_folder env folder ?st1")
  have f2: "files (fs st2) = files (fs st)"
    using ensure_folder_files [OF ef] by simp
  show ?thesis
  proof (cases r2)
    case (Some e)
    with body ef have "out = Raised e" "st' = st2"
      by simp_all
    with f2 show ?thesis by simp
  next
    case None
    obtain r3 st3 where ts: "try_save env img params sz st2 = (r3, st3)"
      by (cases "try_save env img params sz st2")
    note fr = try_save_frame [OF ts]
    show ?thesis
    proof (cases r3)
      case (Some e)
      with body ef None ts have ex: "except_Exception e st3 = (out, st')"
        by simp
      from except_Exception_frame [OF ex] fr f2 show ?thesis by simp
    next
      case None3: None
      from try_save_ok [OF ts [unfolded None3]] obtain thumbnail bytes where
        ok: "rescale env img (size_width sz) (size_height sz) (size_crop sz) = Inr thumbnail"
            "encode env thumbnail (format img) params = Inr bytes"
            "files (fs st3) (size_path sz @ ''.tmp'') = Some bytes"
            "tmp_path st3 = Some (size_path sz @ ''.tmp'')"
        by blast
      show ?thesis
      proof (cases "os_rename (size_path sz @ ''.tmp'') (size_path sz) (fs st3)")
        case (Inl e)
        with body ef None ts None3 ok have "out = Raised e" "st' = st3"
          by simp_all
        with fr f2 show ?thesis by simp
      next
        case (Inr fs')
        with body ef None ts None3 ok have o: "out = Renamed" "st' = st3\<lparr>fs := fs'\<rparr>"
          by simp_all
        from os_rename_ok [OF Inr] ok fr f2 o show ?thesis by auto
      qed
    qed
  qed
qed





text \<open>
  A run without \<open>force\<close> over sizes that are all there, each a file of more
  than zero bytes, returns and leaves the file system as it was.
\<close>

lemma resize_loop_all_generated:
  "\<not> force \<Longrightarrow>
   \<forall>sz \<in> set sizes. os_path_isfile (fs st) (size_path sz) \<and> 0 < st_size (fs st) (size_path sz) \<Longrightarrow>
   fst (resize_loop env img params force sizes st) = None \<and>
   fs (snd (resize_loop env img params force sizes st)) = fs st"
proof (induction sizes arbitrary: st)
  case Nil
  then show ?case by simp
next
  case (Cons sz rest)
  let ?st' = "st\<lparr>log := log st @ [Converting (size_name sz) (size_width sz) (size_height sz),
                                    Exists_skipping (size_name sz)]\<rparr>"
  from Cons.prems have "resize_size env img params force sz st = (Skipped, ?st')"
    by (simp add: resize_size_skipped)
  moreover from Cons.prems have
    "\<forall>sz \<in> set rest. os_path_isfile (fs ?st') (size_path sz) \<and> 0 < st_size (fs ?st') (size_path sz)"
    by simp
  ultimately show ?case
    using Cons.IH [of ?st'] Cons.prems(1) by simp
qed

lemma resize_image_all_generated:
  "\<not> force \<Longrightarrow>
   \<forall>sz \<in> set sizes. os_path_isfile (fs st) (size_path sz) \<and> 0 < st_size (fs st) (size_path sz) \<Longrightarrow>
   fst (resize_image env img sizes force st) = None \<and>
   fs (snd (resize_image env img sizes force st)) = fs st"
  by (simp add: resize_image_def resize_loop_all_generated)




text \<open>
  C4.  One pass writes no file but \<open>destination + ".tmp"\<close> and the destination.
  The destination is renamed over only after the rescaling and the encoding
  have both returned; when either raises, no rename happens and the file at
  the destination is the one that was there.
\<close>

theorem resize_size_atomic:
  assumes "resize_size env img params force sz st = (out, st')"
  shows "(\<forall>q. q \<noteq> size_path sz \<and> q \<noteq> size_path sz @ ''.tmp'' \<longrightarrow>
              files (fs st') q = files (fs st) q) \<and>
         (out = Renamed \<longrightarrow>
            (\<exists>thumbnail bytes.
               rescale env img (size_width sz) (size_height sz) (size_crop sz) = Inr thumbnail \<and>
               encode env thumbnail (format img) params = Inr bytes \<and>
               files (fs st') (size_path sz) = Some bytes)) \<and>
         (out \<noteq> Renamed \<longrightarrow> files (fs st') (size_path sz) = files (fs st) (size_path sz)) \<and>
         ((\<exists>e. rescale env img (size_width sz) (size_height sz) (size_crop sz) = Inl e) \<or>
          (\<exists>thumbnail e.
             rescale env img (size_width sz) (size_height sz) (size_crop sz) = Inr thumbnail \<and>
             encode env thumbnail (format img) params = Inl e) \<longrightarrow>
            out \<noteq> Renamed \<and> files (fs st') (size_path sz) = files (fs st) (size_path sz))"
proof (cases "\<not> force \<and> os_path_isfile (fs st) (size_path sz) \<and> 0 < st_size (fs st) (size_path sz)")
  case True
  from resize_size_skipped [OF True, of env img params] assms
  have "out = Skipped" "fs st' = fs st" by auto
  then show ?thesis by simp
next
  case False
  note a = resize_size_attempt [OF False assms]
  from a have frame: "\<forall>q. q \<noteq> size_path sz \<and> q \<noteq> size_path sz @ ''.tmp'' \<longrightarrow>
              files (fs st') q = files (fs st) q" by blast
  from a have ren: "out = Renamed \<longrightarrow>
            (\<exists>thumbnail bytes.
               rescale env img (size_width sz) (size_height sz) (size_crop sz) = Inr thumbnail \<and>
               encode env thumbnail (format img) params = Inr bytes \<and>
               files (fs st') (size_path sz) = Some bytes)" by blast
  from a have keep: "out \<noteq> Renamed \<longrightarrow>
      files (fs st') (size_path sz) = files (fs st) (size_path sz)" by blast
  have exc: "out \<noteq> Renamed"
    if "(\<exists>e. rescale env img (size_width sz) (size_height sz) (size_crop sz) = Inl e) \<or>
          (\<exists>thumbnail e.
             rescale env img (size_width sz) (size_height sz) (size_crop sz) = Inr thumbnail \<and>
             encode env thumbnail (format img) params = Inl e)"
    using that ren by auto
  from frame ren keep exc show ?thesis by blast
qed

theorem resize_size_atomic_witness:
  "rescale failing_env jpeg (size_width thumb_size) (size_height thumb_size) (size_crop thumb_size)
     = Inr jpeg \<and>
   encode failing_env jpeg (format jpeg) [(''quality'', 95)] = Inl (IOError, Some ''JF'') \<and>
   fst (resize_size failing_env jpeg [(''quality'', 95)] True thumb_size fresh_state) \<noteq> Renamed \<and>
   files (fs (snd (resize_size failing_env jpeg [(''quality'', 95)] True thumb_size fresh_state)))
     (size_path thumb_size) = Some ''old'' \<and>
   fst (resize_size good_env jpeg [(''quality'', 95)] True thumb_size fresh_state) = Renamed \<and>
   files (fs (snd (resize_size good_env jpeg [(''quality'', 95)] True thumb_size fresh_state)))
     (size_path thumb_size) = Some ''JFIF''"
proof -
  have bad: "fst (resize_size failing_env jpeg [(''quality'', 95)] True thumb_size fresh_state)
               \<noteq> Renamed \<and>
             files (fs (snd (resize_size failing_env jpeg [(''quality'', 95)] True thumb_size
                fresh_state))) (size_path thumb_size) = Some ''old''"
    using resize_size_atomic [OF prod.collapse
            [of "resize_size failing_env jpeg [(''quality'', 95)] True thumb_size fresh_state",
             symmetric]]
    by (simp add: failing_env_def jpeg_def thumb_size_def fresh_state_def)
  have good: "fst (resize_size good_env jpeg [(''quality'', 95)] True thumb_size fresh_state) = Renamed"
    by (simp add: resize_size_def ensure_folder_def try_save_def pil_save_def os_rename_def
          os_path_isdir_def os_path_isfile_def os_path_split_def Let_def
          good_env_def jpeg_def thumb_size_def fresh_state_def)
  have enc: "\<And>t. encode good_env t (format jpeg) [(''quality'', 95)] = Inr ''JFIF''"
    by (simp add: good_env_def)
  from resize_size_atomic [OF prod.collapse
            [of "resize_size good_env jpeg [(''quality'', 95)] True thumb_size fresh_state",
             symmetric]] good
  obtain t b where "encode good_env t (format jpeg) [(''quality'', 95)] = Inr b"
    "files (fs (snd (resize_size good_env jpeg [(''quality'', 95)] True thumb_size
                fresh_state))) (size_path thumb_size) = Some b"
    by blast
  with enc have good2: "files (fs (snd (resize_size good_env jpeg [(''quality'', 95)] True thumb_size
                fresh_state))) (size_path thumb_size) = Some ''JFIF''"
    by simp
  from bad good good2 show ?thesis
    by (simp add: failing_env_def jpeg_def thumb_size_def)
qed

section \<open>process_image\<close>

lemma is_animated_gif_iff:
  "is_animated_gif im \<longleftrightarrow>
     (format im = Some ''GIF'' \<or> format im = None \<or> format im = Some []) \<and>
     (\<exists>v. info im ''extension'' = Some v \<and> truthy v)"
  by (auto simp: is_animated_gif_def truthy_str_def split: option.splits)

lemma load_images_static:
  "load_images env im False st = Inr ([Pil im], st)"
  by (simp add: load_images_def)

text \<open>
  C7.  \<open>process_image\<close> raises its own exception only for a source detected
  as animated (format GIF or none, and an extension marker in \<open>info\<close>) with no
  \<open>save_filename\<close>; for such a source it always raises, and it is that
  exception as soon as the frames were loaded and the callback returned for
  each.  For a source that is not animated, with no \<open>save_filename\<close>, it
  returns the one frame the callback returns, in the state it started from.
\<close>

theorem process_image_animated_error:
  "(process_image env im save_filename callback nq save_params st = Inl Animated_must_be_saved
      \<longrightarrow> is_animated_gif im \<and> \<not> truthy_str save_filename) \<and>
   (is_animated_gif im \<and> \<not> truthy_str save_filename
      \<longrightarrow> (\<exists>e. process_image env im save_filename callback nq save_params st = Inl e)) \<and>
   (is_animated_gif im \<and> \<not> truthy_str save_filename \<and>
    load_images env im True st = Inr (images, st1) \<and>
    map_callback callback images = Inr new_images
      \<longrightarrow> process_image env im save_filename callback nq save_params st =
            Inl Animated_must_be_saved) \<and>
   (\<not> is_animated_gif im \<and> \<not> truthy_str save_filename \<and> callback (Pil im) = Inr processed
      \<longrightarrow> process_image env im save_filename callback nq save_params st = Inr (processed, st)) \<and>
   (is_animated_gif im \<longleftrightarrow>
      (format im = Some ''GIF'' \<or> format im = None \<or> format im = Some []) \<and>
      (\<exists>v. info im ''extension'' = Some v \<and> truthy v))"
proof -
  have own: "is_animated_gif im \<and> \<not> truthy_str save_filename"
    if "process_image env im save_filename callback nq save_params st = Inl Animated_must_be_saved"
    using that
    by (auto simp: process_image_def Let_def
             split: sum.splits prod.splits if_splits option.splits list.splits)
  have raises: "\<exists>e. process_image env im save_filename callback nq save_params st = Inl e"
    if "is_animated_gif im \<and> \<not> truthy_str save_filename"
    using that by (auto simp: process_image_def Let_def split: sum.splits prod.splits)
  have reached: "process_image env im save_filename callback nq save_params st =
            Inl Animated_must_be_saved"
    if "is_animated_gif im \<and> \<not> truthy_str save_filename \<and>
        load_images env im True st = Inr (images, st1) \<and>
        map_callback callback images = Inr new_images"
    using that by (simp add: process_image_def Let_def)
  have static: "process_image env im save_filename callback nq save_params st =
            Inr (processed, st)"
    if "\<not> is_animated_gif im \<and> \<not> truthy_str save_filename \<and> callback (Pil im) = Inr processed"
    using that by (simp add: process_image_def Let_def load_images_static)
  from own raises reached static is_animated_gif_iff [of im] show ?thesis by blast
qed

theorem process_image_animated_error_witness:
  "is_animated_gif animated_gif \<and> \<not> truthy_str None \<and>
   load_images static_settings animated_gif True start =
     Inr ([Pil animated_gif], start\<lparr>warnings := [Made_static]\<rparr>) \<and>
   map_callback Inr [Pil animated_gif] = Inr [Pil animated_gif] \<and>
   process_image static_settings animated_gif None Inr 0 None start = Inl Animated_must_be_saved \<and>
   \<not> is_animated_gif jpeg \<and>
   process_image static_settings jpeg None Inr 0 None start = Inr (Pil jpeg, start)"
  using process_image_animated_error [of static_settings animated_gif None Inr 0 None start
          "[Pil animated_gif]" "start\<lparr>warnings := [Made_static]\<rparr>" "[Pil animated_gif]" "Pil animated_gif"]
        process_image_animated_error [of static_settings jpeg None Inr 0 None start
          "[Pil jpeg]" start "[Pil jpeg]" "Pil jpeg"]
  by (simp add: is_animated_gif_def truthy_str_def animated_gif_def jpeg_def load_images_def
        has_animated_gif_support_def static_settings_def start_def)

end
